theory Spec2Isabelle
  imports Complex_Main
begin

section \<open>train.py: a CIFAR10 datamodule and a model adapter\<close>

text \<open>
  The script is glue over a training framework. Its own code is the constants
  \<open>PATH_DATASETS\<close> and \<open>BATCH_SIZE\<close>, the class \<open>LitModel\<close>, the class
  \<open>CIFAR10DataModule\<close> and the top-level statements that build and fit them.
  What the script reads from outside is a parameter here: the process environment,
  whether a CUDA device is there, the files on disk, what a download brings, the
  random permutation the library draws, and the network \<open>resnet20\<close>.
\<close>

subsection \<open>Exceptions\<close>

datatype error =
    RuntimeError string
  | ValueError string
  | AttributeError string
  | IndexError string
  | URLError string

subsection \<open>Module constants\<close>

text \<open>\<^verbatim>\<open>PATH_DATASETS = os.environ.get("PATH_DATASETS", ".")\<close>\<close>

definition PATH_DATASETS :: "(string \<rightharpoonup> string) \<Rightarrow> string" where
  "PATH_DATASETS environ =
     (case environ ''PATH_DATASETS'' of None \<Rightarrow> ''.'' | Some p \<Rightarrow> p)"

text \<open>\<^verbatim>\<open>BATCH_SIZE = 256 if torch.cuda.is_available() else 64\<close>\<close>

definition BATCH_SIZE :: "bool \<Rightarrow> nat" where
  "BATCH_SIZE cuda_is_available = (if cuda_is_available then 256 else 64)"

subsection \<open>The dataset class of the vision library\<close>

text \<open>
  A transform pipeline is kept as the value the script builds; a sample read through a
  dataset is the raw sample paired with the pipeline that the library applies to it.
\<close>

datatype transform_op = ToTensor | Normalize "real list" "real list"

datatype transform = Compose "transform_op list"

record 'a archive =
  ar_train :: "'a list"
  ar_test :: "'a list"

record 'a world =
  disk :: "string \<Rightarrow> 'a archive option"
  remote :: "'a archive option"

record 'a vision_dataset =
  ds_root :: string
  ds_train :: bool
  ds_transform :: "transform option"
  ds_data :: "'a list"

text \<open>
  Modelled from the spec: the dataset class \<open>CIFAR10\<close> belongs to the vision library
  and is not among the sources. The spec gives it "a storage location", has it "ensure raw
  data is present locally" and leaves the "on-disk download format" to the library.
  The model: with \<open>download\<close> set, an archive already under \<open>root\<close> is kept, a missing
  one is fetched and stored under \<open>root\<close>, and a failed fetch raises; then the
  archive under \<open>root\<close> is read, its train or its test part, and a missing archive
  raises \<open>RuntimeError\<close>.
\<close>

definition download_archive :: "string \<Rightarrow> 'a world \<Rightarrow> error + 'a world" where
  "download_archive rootdir w =
     (case disk w rootdir of
        Some _ \<Rightarrow> Inr w
      | None \<Rightarrow>
          (case remote w of
             None \<Rightarrow> Inl (URLError ''download failed'')
           | Some a \<Rightarrow> Inr (w\<lparr>disk := (disk w)(rootdir \<mapsto> a)\<rparr>)))"

definition CIFAR10 ::
  "string \<Rightarrow> bool \<Rightarrow> transform option \<Rightarrow> bool \<Rightarrow> 'a world
     \<Rightarrow> error + ('a vision_dataset \<times> 'a world)" where
  "CIFAR10 rootdir train tf download w =
     (case (if download then download_archive rootdir w else Inr w) of
        Inl e \<Rightarrow> Inl e
      | Inr w' \<Rightarrow>
          (case disk w' rootdir of
             None \<Rightarrow> Inl (RuntimeError ''Dataset not found or corrupted'')
           | Some a \<Rightarrow>
               Inr (\<lparr>ds_root = rootdir, ds_train = train, ds_transform = tf,
                     ds_data = (if train then ar_train a else ar_test a)\<rparr>, w')))"

subsection \<open>The random split of the tensor library\<close>

record 'a subset =
  sub_dataset :: "'a vision_dataset"
  sub_indices :: "nat list"

fun accumulate_from :: "nat \<Rightarrow> nat list \<Rightarrow> nat list" where
  "accumulate_from acc [] = []"
| "accumulate_from acc (x # xs) = (acc + x) # accumulate_from (acc + x) xs"

definition accumulate :: "nat list \<Rightarrow> nat list" where
  "accumulate xs = accumulate_from 0 xs"

text \<open>
  Modelled from the spec: \<open>random_split\<close> belongs to the tensor library and is not
  among the sources. The spec says that the invariant "dataset splits are disjoint and
  fixed-size" is "delegated to a library's random-split utility". The model follows the
  library's documented behaviour for integer lengths, the form this script passes: the
  lengths must sum to the length of the dataset, else \<open>ValueError\<close>; one random
  permutation of the indices is drawn (\<open>randperm\<close>, a parameter here) and cut into
  consecutive slices \<open>indices[offset - length : offset]\<close>, one per length.
\<close>

definition random_split ::
  "(nat \<Rightarrow> nat list) \<Rightarrow> 'a vision_dataset \<Rightarrow> nat list \<Rightarrow> error + 'a subset list" where
  "random_split randperm dataset lengths =
     (if sum_list lengths \<noteq> length (ds_data dataset)
      then Inl (ValueError
             ''Sum of input lengths does not equal the length of the input dataset!'')
      else
        (let indices = randperm (sum_list lengths)
         in Inr (map (\<lambda>(offset, len).
                        \<lparr>sub_dataset = dataset,
                         sub_indices = take len (drop (offset - len) indices)\<rparr>)
                     (zip (accumulate lengths) lengths))))"

subsection \<open>CIFAR10DataModule\<close>

text \<open>An attribute that no statement has assigned yet is \<open>None\<close>.\<close>

record 'a datamodule =
  data_dir :: string
  transform :: transform
  dims :: "nat \<times> nat \<times> nat"
  num_classes :: nat
  cifar_train :: "'a subset option"
  cifar_val :: "'a subset option"
  cifar_test :: "'a vision_dataset option"

text \<open>\<^verbatim>\<open>def __init__(self, data_dir: str = "./")\<close>\<close>

definition default_data_dir :: string where
  "default_data_dir = ''./''"

definition CIFAR10DataModule :: "string \<Rightarrow> 'a datamodule" where
  "CIFAR10DataModule dir =
     \<lparr>data_dir = dir,
      transform = Compose [ToTensor, Normalize [1/2, 1/2, 1/2] [1/2, 1/2, 1/2]],
      dims = (3, 32, 32),
      num_classes = 10,
      cifar_train = None, cifar_val = None, cifar_test = None\<rparr>"

text \<open>
  \<open>prepare_data\<close> builds the train and the test dataset with \<open>download=True\<close> and
  drops both objects. It returns what was raised, if anything, the object and the world.
\<close>

definition prepare_data ::
  "'a datamodule \<Rightarrow> 'a world \<Rightarrow> (error + unit) \<times> 'a datamodule \<times> 'a world" where
  "prepare_data self w =
     (case CIFAR10 (data_dir self) True None True w of
        Inl e \<Rightarrow> (Inl e, self, w)
      | Inr (_, w1) \<Rightarrow>
          (case CIFAR10 (data_dir self) False None True w1 of
             Inl e \<Rightarrow> (Inl e, self, w1)
           | Inr (_, w2) \<Rightarrow> (Inr (), self, w2)))"

text \<open>
  \<open>setup\<close>, named \<open>setup_stage\<close> here: the first \<open>if\<close> loads the train part
  and splits it \<open>[45000, 5000]\<close>, the second loads the test part. An exception leaves the object as the statements before
  it made it. Reading with \<open>download=False\<close> does not change the world.
\<close>

definition setup_stage ::
  "string option \<Rightarrow> (nat \<Rightarrow> nat list) \<Rightarrow> 'a datamodule \<Rightarrow> 'a world
     \<Rightarrow> (error + unit) \<times> 'a datamodule" where
  "setup_stage stage randperm self w =
     (case
        (if stage = Some ''fit'' \<or> stage = None then
           (case CIFAR10 (data_dir self) True (Some (transform self)) False w of
              Inl e \<Rightarrow> (Inl e, self)
            | Inr (cifar_full, _) \<Rightarrow>
                (case random_split randperm cifar_full [45000, 5000] of
                   Inl e \<Rightarrow> (Inl e, self)
                 | Inr parts \<Rightarrow>
                     (case parts of
                        [tr, va] \<Rightarrow>
                          (Inr (), self\<lparr>cifar_train := Some tr, cifar_val := Some va\<rparr>)
                      | _ \<Rightarrow> (Inl (ValueError ''cannot unpack''), self))))
         else (Inr (), self))
      of
        (Inl e, self1) \<Rightarrow> (Inl e, self1)
      | (Inr _, self1) \<Rightarrow>
          (if stage = Some ''test'' \<or> stage = None then
             (case CIFAR10 (data_dir self1) False (Some (transform self1)) False w of
                Inl e \<Rightarrow> (Inl e, self1)
              | Inr (t, _) \<Rightarrow> (Inr (), self1\<lparr>cifar_test := Some t\<rparr>))
           else (Inr (), self1)))"

subsection \<open>The batch iterator of the tensor library\<close>

text \<open>
  A sample as a dataset hands it out: the raw sample and the transform pipeline applied
  to it. Reading past the end raises \<open>IndexError\<close>.
\<close>

type_synonym 'a item = "transform option \<times> 'a"

definition dataset_getitem :: "'a vision_dataset \<Rightarrow> nat \<Rightarrow> error + 'a item" where
  "dataset_getitem d i =
     (if i < length (ds_data d) then Inr (ds_transform d, ds_data d ! i)
      else Inl (IndexError ''index out of range''))"

definition subset_getitem :: "'a subset \<Rightarrow> nat \<Rightarrow> error + 'a item" where
  "subset_getitem s i =
     (if i < length (sub_indices s) then dataset_getitem (sub_dataset s) (sub_indices s ! i)
      else Inl (IndexError ''list index out of range''))"

datatype 'a dataset_like = OfSubset "'a subset" | OfDataset "'a vision_dataset"

fun len :: "'a dataset_like \<Rightarrow> nat" where
  "len (OfSubset s) = length (sub_indices s)"
| "len (OfDataset d) = length (ds_data d)"

fun getitem :: "'a dataset_like \<Rightarrow> nat \<Rightarrow> error + 'a item" where
  "getitem (OfSubset s) i = subset_getitem s i"
| "getitem (OfDataset d) i = dataset_getitem d i"

record 'a data_loader =
  dl_dataset :: "'a dataset_like"
  dl_batch_size :: nat
  dl_shuffle :: bool
  dl_drop_last :: bool

text \<open>
  Modelled from the spec: \<open>DataLoader\<close> belongs to the tensor library and is not
  among the sources. The spec says of batching, shuffling and sampling that "everything is a
  direct pass-through to library defaults". The library's documented defaults are
  \<open>shuffle=False\<close> and \<open>drop_last=False\<close>: the indices \<open>0, 1, ..., len - 1\<close> are
  visited in order (in a random order drawn by \<open>randperm\<close> when \<open>shuffle\<close> is set),
  cut into consecutive groups of \<open>batch_size\<close>, the last group holding what is left
  (and dropped when it is short and \<open>drop_last\<close> is set); a batch is the list of
  the items at the indices of a group. A batch size of zero is refused.
\<close>

definition DataLoader :: "'a dataset_like \<Rightarrow> nat \<Rightarrow> error + 'a data_loader" where
  "DataLoader dataset batch_size =
     (if batch_size = 0
      then Inl (ValueError ''batch_size should be a positive integer value'')
      else Inr \<lparr>dl_dataset = dataset, dl_batch_size = batch_size,
                dl_shuffle = False, dl_drop_last = False\<rparr>)"

function batches :: "nat \<Rightarrow> 'b list \<Rightarrow> 'b list list" where
  "batches n xs =
     (if n = 0 \<or> xs = [] then [] else take n xs # batches n (drop n xs))"
  by pat_completeness auto
termination
  by (relation "measure (\<lambda>(n, xs). length xs)") auto

declare batches.simps [simp del]

definition sampler :: "'a data_loader \<Rightarrow> (nat \<Rightarrow> nat list) \<Rightarrow> nat list" where
  "sampler dl randperm =
     (if dl_shuffle dl then randperm (len (dl_dataset dl)) else [0..<len (dl_dataset dl)])"

definition batch_sampler :: "'a data_loader \<Rightarrow> (nat \<Rightarrow> nat list) \<Rightarrow> nat list list" where
  "batch_sampler dl randperm =
     (let groups = batches (dl_batch_size dl) (sampler dl randperm)
      in if dl_drop_last dl then filter (\<lambda>g. length g = dl_batch_size dl) groups
         else groups)"

fun fetch :: "(nat \<Rightarrow> error + 'b) \<Rightarrow> nat list \<Rightarrow> error + 'b list" where
  "fetch get [] = Inr []"
| "fetch get (i # rest) =
     (case get i of
        Inl e \<Rightarrow> Inl e
      | Inr x \<Rightarrow> (case fetch get rest of Inl e \<Rightarrow> Inl e | Inr xs \<Rightarrow> Inr (x # xs)))"

fun fetch_batches :: "(nat \<Rightarrow> error + 'b) \<Rightarrow> nat list list \<Rightarrow> error + 'b list list" where
  "fetch_batches get [] = Inr []"
| "fetch_batches get (g # rest) =
     (case fetch get g of
        Inl e \<Rightarrow> Inl e
      | Inr b \<Rightarrow>
          (case fetch_batches get rest of Inl e \<Rightarrow> Inl e | Inr bs \<Rightarrow> Inr (b # bs)))"

text \<open>One pass over a loader: all its batches in order, or the first exception.\<close>

definition dataloader_iter ::
  "'a data_loader \<Rightarrow> (nat \<Rightarrow> nat list) \<Rightarrow> error + 'a item list list" where
  "dataloader_iter dl randperm =
     fetch_batches (getitem (dl_dataset dl)) (batch_sampler dl randperm)"

subsection \<open>The three dataloaders\<close>

text \<open>
  The argument \<open>cuda\<close> is what \<open>torch.cuda.is_available()\<close> returned when the module
  was loaded. Reading an attribute that \<open>setup\<close> has not assigned raises.
\<close>

definition train_dataloader :: "bool \<Rightarrow> 'a datamodule \<Rightarrow> error + 'a data_loader" where
  "train_dataloader cuda self =
     (case cifar_train self of
        None \<Rightarrow> Inl (AttributeError ''cifar_train'')
      | Some d \<Rightarrow> DataLoader (OfSubset d) (BATCH_SIZE cuda))"

definition val_dataloader :: "bool \<Rightarrow> 'a datamodule \<Rightarrow> error + 'a data_loader" where
  "val_dataloader cuda self =
     (case cifar_val self of
        None \<Rightarrow> Inl (AttributeError ''cifar_val'')
      | Some d \<Rightarrow> DataLoader (OfSubset d) (BATCH_SIZE cuda))"

definition test_dataloader :: "bool \<Rightarrow> 'a datamodule \<Rightarrow> error + 'a data_loader" where
  "test_dataloader cuda self =
     (case cifar_test self of
        None \<Rightarrow> Inl (AttributeError ''cifar_test'')
      | Some d \<Rightarrow> DataLoader (OfDataset d) (BATCH_SIZE cuda))"

text \<open>The sizes of the batches of one pass over a loader.\<close>

definition batch_sizes ::
  "error + 'a data_loader \<Rightarrow> (nat \<Rightarrow> nat list) \<Rightarrow> error + nat list" where
  "batch_sizes loader randperm =
     (case loader of
        Inl e \<Rightarrow> Inl e
      | Inr dl \<Rightarrow>
          (case dataloader_iter dl randperm of
             Inl e \<Rightarrow> Inl e
           | Inr bs \<Rightarrow> Inr (map length bs)))"

text \<open>
  The samples of a dataset in index order, as the spec's "pass-through to library
  defaults" describes what a loader yields: for a subset, the samples at its indices in
  the order of the index list.
\<close>

fun items_in_order :: "'a dataset_like \<Rightarrow> 'a item list" where
  "items_in_order (OfSubset s) =
     map (\<lambda>i. (ds_transform (sub_dataset s), ds_data (sub_dataset s) ! i)) (sub_indices s)"
| "items_in_order (OfDataset d) = map (\<lambda>x. (ds_transform d, x)) (ds_data d)"

text \<open>The dataset object that \<open>setup\<close> reads from an archive on disk.\<close>

definition loaded :: "'a datamodule \<Rightarrow> bool \<Rightarrow> 'a archive \<Rightarrow> 'a vision_dataset" where
  "loaded self train a =
     \<lparr>ds_root = data_dir self, ds_train = train, ds_transform = Some (transform self),
      ds_data = (if train then ar_train a else ar_test a)\<rparr>"

subsection \<open>LitModel\<close>


text \<open>
  The network \<open>resnet20()\<close> comes from the module \<open>resnet_cifar\<close>, which is not
  among the sources: it is a parameter, given as its forward function and its parameters.
\<close>

record ('x, 'p) lit_model =
  model :: "'x \<Rightarrow> real list list"
  parameters :: "'p list"











text \<open>
  \<open>torch.optim.Adam(self.parameters())\<close>: the optimizer is kept as the call that
  built it, its class, its parameters and its keyword arguments.
\<close>

record 'p optimizer =
  opt_class :: string
  opt_params :: "'p list"
  opt_kwargs :: "(string \<times> real) list"

definition Adam :: "'p list \<Rightarrow> (string \<times> real) list \<Rightarrow> 'p optimizer" where
  "Adam params kwargs = \<lparr>opt_class = ''Adam'', opt_params = params, opt_kwargs = kwargs\<rparr>"

definition configure_optimizers :: "('x, 'p) lit_model \<Rightarrow> 'p optimizer" where
  "configure_optimizers self = Adam (parameters self) []"


subsection \<open>The top level of the script\<close>



text \<open>
  The module constants and \<open>dm = CIFAR10DataModule()\<close>, from the process environment
  and the CUDA probe. The model and the trainer are built by the framework.
\<close>

record 'a script_globals =
  g_PATH_DATASETS :: string
  g_BATCH_SIZE :: nat
  g_dm :: "'a datamodule"

definition script :: "(string \<rightharpoonup> string) \<Rightarrow> bool \<Rightarrow> 'a script_globals" where
  "script environ cuda =
     \<lparr>g_PATH_DATASETS = PATH_DATASETS environ,
      g_BATCH_SIZE = BATCH_SIZE cuda,
      g_dm = CIFAR10DataModule default_data_dir\<rparr>"

subsection \<open>The calls of the code\<close>

text \<open>
  Every call expression of the source, function by function and in source order: what
  the code itself invokes. A call into a library is named by the qualified name that
  the imports of the file give it, a call of a class of the file by the class. A call
  of \<open>self.log\<close> keeps its metric name and its flags \<open>prog_bar\<close> and
  \<open>sync_dist\<close>; the construction of the trainer keeps its arguments. What the
  framework does inside \<open>Trainer\<close> and \<open>fit\<close> is the framework's.
\<close>

record trainer_args =
  accelerator :: string
  devices :: string
  strategy :: string
  logger :: string
  max_epochs :: nat

datatype call =
    LibCall string
  | OwnCall string
  | LogSite string bool bool
  | TrainerNew trainer_args




text \<open>
  The facilities for threads, locks and cancellation of the language and of the tensor
  library, by module; a name uses one when it is such a module or lies under it.
\<close>

definition thread_lock_cancel_modules :: "string list" where
  "thread_lock_cancel_modules =
     [''threading'', ''_thread'', ''multiprocessing'', ''concurrent'', ''asyncio'',
      ''queue'', ''signal'', ''torch.multiprocessing'', ''torch.distributed'']"

fun starts_with :: "string \<Rightarrow> string \<Rightarrow> bool" where
  "starts_with [] name = True"
| "starts_with (p # ps) [] = False"
| "starts_with (p # ps) (c # cs) = (p = c \<and> starts_with ps cs)"

definition in_module :: "string \<Rightarrow> string \<Rightarrow> bool" where
  "in_module m name = (name = m \<or> starts_with (m @ ''.'') name)"

definition threads_locks_cancellation :: "string \<Rightarrow> bool" where
  "threads_locks_cancellation name =
     list_ex (\<lambda>m. in_module m name) thread_lock_cancel_modules"

fun concurrency_call :: "call \<Rightarrow> bool" where
  "concurrency_call (LibCall name) = threads_locks_cancellation name"
| "concurrency_call (OwnCall name) = False"
| "concurrency_call (LogSite name prog_bar sync_dist) = False"
| "concurrency_call (TrainerNew args) = False"




subsection \<open>A world with the dataset on disk\<close>

definition cifar_archive :: "nat archive" where
  "cifar_archive = \<lparr>ar_train = [0..<50000], ar_test = [0..<10000]\<rparr>"

definition cifar_on_disk :: "nat world" where
  "cifar_on_disk = \<lparr>disk = (\<lambda>_. None)(''./'' \<mapsto> cifar_archive), remote = None\<rparr>"

text \<open>Nothing on disk yet, and a download that succeeds.\<close>

definition nothing_on_disk :: "nat world" where
  "nothing_on_disk = \<lparr>disk = (\<lambda>_. None), remote = Some cifar_archive\<rparr>"


definition descending :: "nat \<Rightarrow> nat list" where
  "descending n = rev [0..<n]"

section \<open>Helper lemmas\<close>

lemma accumulate_two: "accumulate [a, b] = [a, a + b]"
  by (simp add: accumulate_def)

lemma perm_length:
  assumes "distinct xs" and "set xs = {..<n}"
  shows "length xs = n"
  using assms distinct_card by fastforce

lemma CIFAR10_read:
  "disk w rootdir = Some a \<Longrightarrow>
   CIFAR10 rootdir train tf False w =
     Inr (\<lparr>ds_root = rootdir, ds_train = train, ds_transform = tf,
           ds_data = (if train then ar_train a else ar_test a)\<rparr>, w)"
  by (simp add: CIFAR10_def)

lemma CIFAR10_read_missing:
  "disk w rootdir = None \<Longrightarrow>
   CIFAR10 rootdir train tf False w = Inl (RuntimeError ''Dataset not found or corrupted'')"
  by (simp add: CIFAR10_def)

lemma random_split_two:
  assumes "a + b = length (ds_data dataset)"
  shows "random_split randperm dataset [a, b] =
           Inr [\<lparr>sub_dataset = dataset, sub_indices = take a (randperm (a + b))\<rparr>,
                \<lparr>sub_dataset = dataset,
                 sub_indices = take b (drop a (randperm (a + b)))\<rparr>]"
proof -
  have "length (ds_data dataset) - b = a"
    using assms by simp
  then show ?thesis
    using assms by (simp add: random_split_def accumulate_two Let_def)
qed

lemma random_split_wrong_size:
  "sum_list lengths \<noteq> length (ds_data dataset) \<Longrightarrow>
   \<exists>msg. random_split randperm dataset lengths = Inl (ValueError msg)"
  by (simp add: random_split_def)

lemma setup_fit_result:
  assumes "disk w (data_dir self) = Some a" and "length (ar_train a) = 50000"
  shows "setup_stage (Some ''fit'') randperm self w =
           (Inr (),
            self\<lparr>cifar_train :=
                   Some \<lparr>sub_dataset = loaded self True a,
                         sub_indices = take 45000 (randperm 50000)\<rparr>,
                 cifar_val :=
                   Some \<lparr>sub_dataset = loaded self True a,
                         sub_indices = take 5000 (drop 45000 (randperm 50000))\<rparr>\<rparr>)"
proof -
  have "random_split randperm (loaded self True a) [45000, 5000] =
          Inr [\<lparr>sub_dataset = loaded self True a,
                sub_indices = take 45000 (randperm (45000 + 5000))\<rparr>,
               \<lparr>sub_dataset = loaded self True a,
                sub_indices = take 5000 (drop 45000 (randperm (45000 + 5000)))\<rparr>]"
    by (rule random_split_two) (simp add: loaded_def assms)
  then show ?thesis
    using assms(1) by (simp add: setup_stage_def CIFAR10_read loaded_def)
qed

lemma setup_test_result:
  assumes "disk w (data_dir self) = Some a"
  shows "setup_stage (Some ''test'') randperm self w =
           (Inr (), self\<lparr>cifar_test := Some (loaded self False a)\<rparr>)"
  using assms by (simp add: setup_stage_def CIFAR10_read loaded_def)

lemma setup_none_result:
  assumes "disk w (data_dir self) = Some a" and "length (ar_train a) = 50000"
  shows "setup_stage None randperm self w =
           (Inr (),
            self\<lparr>cifar_train :=
                   Some \<lparr>sub_dataset = loaded self True a,
                         sub_indices = take 45000 (randperm 50000)\<rparr>,
                 cifar_val :=
                   Some \<lparr>sub_dataset = loaded self True a,
                         sub_indices = take 5000 (drop 45000 (randperm 50000))\<rparr>,
                 cifar_test := Some (loaded self False a)\<rparr>)"
proof -
  have "random_split randperm (loaded self True a) [45000, 5000] =
          Inr [\<lparr>sub_dataset = loaded self True a,
                sub_indices = take 45000 (randperm (45000 + 5000))\<rparr>,
               \<lparr>sub_dataset = loaded self True a,
                sub_indices = take 5000 (drop 45000 (randperm (45000 + 5000)))\<rparr>]"
    by (rule random_split_two) (simp add: loaded_def assms)
  then show ?thesis
    using assms(1) by (simp add: setup_stage_def CIFAR10_read loaded_def)
qed

lemma setup_other_stage:
  assumes "stage \<noteq> None" and "stage \<noteq> Some ''fit''" and "stage \<noteq> Some ''test''"
  shows "setup_stage stage randperm self w = (Inr (), self)"
proof -
  have "\<not> (stage = Some ''fit'' \<or> stage = None)" and "\<not> (stage = Some ''test'' \<or> stage = None)"
    using assms by simp_all
  then show ?thesis
    unfolding setup_stage_def by (simp only: if_False prod.case sum.case)
qed

lemma split_of_permutation:
  assumes "distinct xs" and "set xs = {..<a + b}"
  shows "length (take a xs) = a"
    and "length (take b (drop a xs)) = b"
    and "set (take a xs) \<inter> set (take b (drop a xs)) = {}"
    and "set (take a xs) \<union> set (take b (drop a xs)) = {..<a + b}"
    and "distinct (take a xs)"
    and "distinct (take b (drop a xs))"
proof -
  have len: "length xs = a + b"
    using assms by (rule perm_length)
  then have whole: "take b (drop a xs) = drop a xs"
    by simp
  show "length (take a xs) = a" using len by simp
  show "length (take b (drop a xs)) = b" using len by simp
  show "set (take a xs) \<inter> set (take b (drop a xs)) = {}"
    unfolding whole using assms(1) by (rule set_take_disj_set_drop_if_distinct) simp
  have "set (take a xs) \<union> set (drop a xs) = set (take a xs @ drop a xs)"
    by (simp only: set_append)
  then show "set (take a xs) \<union> set (take b (drop a xs)) = {..<a + b}"
    unfolding whole using assms(2) by simp
  show "distinct (take a xs)" using assms(1) by simp
  show "distinct (take b (drop a xs))" using assms(1) by simp
qed

lemma setup_frame:
  "cifar_test (snd (setup_stage (Some ''fit'') randperm self w)) = cifar_test self"
  "cifar_train (snd (setup_stage (Some ''test'') randperm self w)) = cifar_train self"
  "cifar_val (snd (setup_stage (Some ''test'') randperm self w)) = cifar_val self"
  by (auto simp: setup_stage_def split: sum.splits list.splits prod.splits)

lemma prepare_data_result:
  "prepare_data self w =
     (case disk w (data_dir self) of
        Some _ \<Rightarrow> (Inr (), self, w)
      | None \<Rightarrow>
          (case remote w of
             None \<Rightarrow> (Inl (URLError ''download failed''), self, w)
           | Some a \<Rightarrow> (Inr (), self, w\<lparr>disk := (disk w)(data_dir self \<mapsto> a)\<rparr>)))"
  by (simp add: prepare_data_def CIFAR10_def download_archive_def split: option.splits)

lemma script_dm: "g_dm (script environ cuda) = CIFAR10DataModule ''./''"
  by (simp add: script_def default_data_dir_def)

lemma setup_depends_on_data_dir:
  assumes "disk w (data_dir self) = disk w2 (data_dir self)"
  shows "setup_stage stage randperm self w = setup_stage stage randperm self w2"
proof (cases "disk w (data_dir self)")
  case None
  with assms have "disk w2 (data_dir self) = None"
    by simp
  with None show ?thesis
    by (simp add: setup_stage_def CIFAR10_def)
next
  case (Some a)
  with assms have "disk w2 (data_dir self) = Some a"
    by simp
  with Some show ?thesis
    by (simp add: setup_stage_def CIFAR10_def split: sum.splits list.splits prod.splits)
qed



subsection \<open>Batching\<close>


lemma batches_unfold:
  "0 < n \<Longrightarrow> xs \<noteq> [] \<Longrightarrow> batches n xs = take n xs # batches n (drop n xs)"
  by (subst batches.simps) simp

lemma batches_Nil: "batches n [] = []"
  by (subst batches.simps) simp

lemma concat_batches: "0 < n \<Longrightarrow> concat (batches n xs) = xs"
proof (induction n xs rule: batches.induct)
  case (1 n xs)
  show ?case
  proof (cases "xs = []")
    case True
    then show ?thesis by (simp add: batches_Nil)
  next
    case False
    with 1 show ?thesis by (simp add: batches_unfold)
  qed
qed

lemma batches_map: "batches n (map f xs) = map (map f) (batches n xs)"
proof (induction n xs rule: batches.induct)
  case (1 n xs)
  show ?case
  proof (cases "n = 0 \<or> xs = []")
    case True
    then show ?thesis by (auto simp: batches.simps [of n] batches.simps [of 0])
  next
    case False
    then have "batches n xs = take n xs # batches n (drop n xs)"
      and "batches n (map f xs) = take n (map f xs) # batches n (drop n (map f xs))"
      by (simp_all add: batches_unfold)
    with 1 False show ?thesis by (simp add: take_map drop_map)
  qed
qed

lemma batch_lengths:
  "0 < n \<Longrightarrow>
   map length (batches n xs) =
     replicate (length xs div n) n @
       (if length xs mod n = 0 then [] else [length xs mod n])"
proof (induction n xs rule: batches.induct)
  case (1 n xs)
  show ?case
  proof (cases "xs = []")
    case True
    then show ?thesis by (simp add: batches_Nil)
  next
    case False
    show ?thesis
    proof (cases "length xs < n")
      case True
      with False 1 show ?thesis by (simp add: batches_unfold batches_Nil)
    next
      case ge: False
      then have le: "n \<le> length xs" by simp
      have d: "length xs div n = Suc ((length xs - n) div n)"
        using le 1(2) by (simp add: le_div_geq)
      have m: "length xs mod n = (length xs - n) mod n"
        using le by (simp add: le_mod_geq)
      from 1 False le show ?thesis
        by (simp add: batches_unfold d m min_def)
    qed
  qed
qed

lemma fetch_ok:
  "(\<And>i. i \<in> set idx \<Longrightarrow> get i = Inr (f i)) \<Longrightarrow> fetch get idx = Inr (map f idx)"
  by (induction idx) simp_all

lemma fetch_batches_ok:
  "(\<And>i. i \<in> set (concat groups) \<Longrightarrow> get i = Inr (f i)) \<Longrightarrow>
   fetch_batches get groups = Inr (map (map f) groups)"
proof (induction groups)
  case Nil
  then show ?case by simp
next
  case (Cons g groups)
  have "fetch get g = Inr (map f g)"
    by (rule fetch_ok) (simp add: Cons.prems)
  moreover have "fetch_batches get groups = Inr (map (map f) groups)"
    by (rule Cons.IH) (simp add: Cons.prems)
  ultimately show ?case by simp
qed


lemma set_concat_batches: "0 < n \<Longrightarrow> set (concat (batches n xs)) = set xs"
  by (simp add: concat_batches)

lemma getitem_OfSubset: "getitem (OfSubset s) = subset_getitem s"
  by (rule ext) simp

lemma getitem_OfDataset: "getitem (OfDataset d) = dataset_getitem d"
  by (rule ext) simp

lemma subset_loader_iter:
  assumes "set (sub_indices s) \<subseteq> {..<length (ds_data (sub_dataset s))}" and "0 < B"
  shows "dataloader_iter
           \<lparr>dl_dataset = OfSubset s, dl_batch_size = B, dl_shuffle = False,
             dl_drop_last = False\<rparr> rng =
         Inr (batches B (map (\<lambda>i. (ds_transform (sub_dataset s), ds_data (sub_dataset s) ! i))
                             (sub_indices s)))"
proof -
  let ?g = "\<lambda>i. (ds_transform (sub_dataset s), ds_data (sub_dataset s) ! i)"
  let ?f = "\<lambda>k. ?g (sub_indices s ! k)"
  let ?n = "length (sub_indices s)"
  have get: "subset_getitem s k = Inr (?f k)" if "k \<in> set (concat (batches B [0..<?n]))" for k
  proof -
    from that assms(2) have k: "k < ?n"
      by (simp add: concat_batches)
    then have "sub_indices s ! k \<in> set (sub_indices s)"
      by simp
    with assms(1) have "sub_indices s ! k < length (ds_data (sub_dataset s))"
      by blast
    with k show ?thesis
      by (simp add: subset_getitem_def dataset_getitem_def)
  qed
  have "fetch_batches (subset_getitem s) (batches B [0..<?n]) =
          Inr (map (map ?f) (batches B [0..<?n]))"
    using get by (rule fetch_batches_ok)
  also have "map (map ?f) (batches B [0..<?n]) = batches B (map ?f [0..<?n])"
    by (simp add: batches_map)
  also have "map ?f [0..<?n] = map ?g (map (\<lambda>k. sub_indices s ! k) [0..<?n])"
    by simp
  also have "map (\<lambda>k. sub_indices s ! k) [0..<?n] = sub_indices s"
    by (rule map_nth)
  finally show ?thesis
    by (simp add: dataloader_iter_def batch_sampler_def sampler_def
        getitem_OfSubset getitem_OfDataset)
qed

lemma dataset_loader_iter:
  assumes "0 < B"
  shows "dataloader_iter
           \<lparr>dl_dataset = OfDataset d, dl_batch_size = B, dl_shuffle = False,
             dl_drop_last = False\<rparr> rng =
         Inr (batches B (map (\<lambda>x. (ds_transform d, x)) (ds_data d)))"
proof -
  let ?f = "\<lambda>k. (ds_transform d, ds_data d ! k)"
  let ?n = "length (ds_data d)"
  have get: "dataset_getitem d k = Inr (?f k)" if "k \<in> set (concat (batches B [0..<?n]))" for k
    using that assms by (simp add: concat_batches dataset_getitem_def)
  have "fetch_batches (dataset_getitem d) (batches B [0..<?n]) =
          Inr (map (map ?f) (batches B [0..<?n]))"
    using get by (rule fetch_batches_ok)
  also have "map (map ?f) (batches B [0..<?n]) = batches B (map ?f [0..<?n])"
    by (simp add: batches_map)
  also have "map ?f [0..<?n] = map (\<lambda>x. (ds_transform d, x)) (map (\<lambda>k. ds_data d ! k) [0..<?n])"
    by simp
  also have "map (\<lambda>k. ds_data d ! k) [0..<?n] = ds_data d"
    by (rule map_nth)
  finally show ?thesis
    by (simp add: dataloader_iter_def batch_sampler_def sampler_def
        getitem_OfSubset getitem_OfDataset)
qed

lemma DataLoader_ok:
  "0 < B \<Longrightarrow>
   DataLoader ds B =
     Inr \<lparr>dl_dataset = ds, dl_batch_size = B, dl_shuffle = False, dl_drop_last = False\<rparr>"
  by (simp add: DataLoader_def)

lemma BATCH_SIZE_pos: "0 < BATCH_SIZE cuda"
  by (simp add: BATCH_SIZE_def)

lemma subset_loader_sizes:
  assumes "set (sub_indices s) \<subseteq> {..<length (ds_data (sub_dataset s))}" and "0 < B"
  shows "batch_sizes (DataLoader (OfSubset s) B) rng =
           Inr (replicate (length (sub_indices s) div B) B @
                (if length (sub_indices s) mod B = 0 then []
                 else [length (sub_indices s) mod B]))"
  using assms
  by (simp add: batch_sizes_def DataLoader_ok subset_loader_iter batch_lengths)

lemma dataset_loader_sizes:
  assumes "0 < B"
  shows "batch_sizes (DataLoader (OfDataset d) B) rng =
           Inr (replicate (length (ds_data d) div B) B @
                (if length (ds_data d) mod B = 0 then [] else [length (ds_data d) mod B]))"
  using assms
  by (simp add: batch_sizes_def DataLoader_ok dataset_loader_iter batch_lengths)

lemma iter_ignores_rng:
  "\<not> dl_shuffle dl \<Longrightarrow> dataloader_iter dl r1 = dataloader_iter dl r2"
  by (simp add: dataloader_iter_def batch_sampler_def sampler_def)

lemma loader_iter_in_order:
  assumes "0 < B"
    and "\<And>s. ds = OfSubset s \<Longrightarrow> set (sub_indices s) \<subseteq> {..<length (ds_data (sub_dataset s))}"
  shows "\<exists>dl bs. DataLoader ds B = Inr dl \<and> dl_dataset dl = ds \<and> \<not> dl_shuffle dl
           \<and> dl_batch_size dl = B
           \<and> dataloader_iter dl r1 = Inr bs \<and> dataloader_iter dl r2 = Inr bs
           \<and> concat bs = items_in_order ds"
proof (cases ds)
  case (OfSubset s)
  with assms(2) have "set (sub_indices s) \<subseteq> {..<length (ds_data (sub_dataset s))}"
    by simp
  then show ?thesis
    using assms(1) OfSubset
    by (simp add: DataLoader_ok subset_loader_iter concat_batches)
next
  case (OfDataset d)
  then show ?thesis
    using assms(1)
    by (simp add: DataLoader_ok dataset_loader_iter concat_batches)
qed

subsection \<open>The example world\<close>

lemma split_indices_in_range:
  assumes "set xs = {..<n}"
  shows "set (take a xs) \<subseteq> {..<n}" and "set (take b (drop a xs)) \<subseteq> {..<n}"
proof -
  show "set (take a xs) \<subseteq> {..<n}"
    using set_take_subset [of a xs] assms by simp
  have "set (take b (drop a xs)) \<subseteq> set (drop a xs)"
    by (rule set_take_subset)
  also have "\<dots> \<subseteq> set xs"
    by (rule set_drop_subset)
  finally show "set (take b (drop a xs)) \<subseteq> {..<n}"
    using assms by simp
qed

lemma example_disk:
  "disk cifar_on_disk (data_dir (CIFAR10DataModule ''./'' :: nat datamodule))
     = Some cifar_archive"
  by (simp add: cifar_on_disk_def CIFAR10DataModule_def)

lemma example_train_length: "length (ar_train cifar_archive) = 50000"
  by (simp add: cifar_archive_def)

lemma example_test_length: "length (ar_test cifar_archive) = 10000"
  by (simp add: cifar_archive_def)

lemma descending_perm: "distinct (descending n)" "set (descending n) = {..<n}"
  by (simp_all add: descending_def lessThan_atLeast0)


subsection \<open>Loss and accuracy\<close>










subsection \<open>Calls\<close>

lemma concurrency_call_example: "concurrency_call (LibCall ''threading.Thread'')"
  by (simp add: threads_locks_cancellation_def thread_lock_cancel_modules_def in_module_def)




section \<open>The split made by setup\<close>

text \<open>
  C1. With stage \<open>fit\<close> or \<open>None\<close>, a train part of 50000 samples under the
  datamodule's directory and a permutation of the 50000 indices drawn by the library,
  \<open>setup\<close> returns normally and assigns a train subset of exactly 45000 indices and
  a validation subset of exactly 5000 indices of that same dataset; the two index
  lists are disjoint, neither repeats an index, together they are all 50000 indices,
  and the two sizes sum to the size of the full dataset.
\<close>

theorem setup_partitions_train_val:
  assumes "stage = Some ''fit'' \<or> stage = None"
    and "disk w (data_dir self) = Some a"
    and "length (ar_train a) = 50000"
    and "distinct (randperm 50000)"
    and "set (randperm 50000) = {..<50000}"
  shows "\<exists>tr va.
           fst (setup_stage stage randperm self w) = Inr ()
         \<and> cifar_train (snd (setup_stage stage randperm self w)) = Some tr
         \<and> cifar_val (snd (setup_stage stage randperm self w)) = Some va
         \<and> sub_dataset tr = loaded self True a
         \<and> sub_dataset va = loaded self True a
         \<and> length (ds_data (loaded self True a)) = 50000
         \<and> length (sub_indices tr) = 45000
         \<and> length (sub_indices va) = 5000
         \<and> set (sub_indices tr) \<inter> set (sub_indices va) = {}
         \<and> distinct (sub_indices tr) \<and> distinct (sub_indices va)
         \<and> set (sub_indices tr) \<union> set (sub_indices va) = {..<50000}
         \<and> length (sub_indices tr) + length (sub_indices va)
             = length (ds_data (loaded self True a))"
proof -
  have p: "distinct (randperm 50000)" "set (randperm 50000) = {..<45000 + 5000}"
    using assms(4,5) by simp_all
  note facts = split_of_permutation [OF p]
  have full: "length (ds_data (loaded self True a)) = 50000"
    using assms(3) by (simp add: loaded_def)
  from assms(1) show ?thesis
  proof
    assume "stage = Some ''fit''"
    then show ?thesis
      using facts full by (simp add: setup_fit_result [OF assms(2,3)])
  next
    assume "stage = None"
    then show ?thesis
      using facts full by (simp add: setup_none_result [OF assms(2,3)])
  qed
qed

theorem setup_partitions_train_val_witness:
  "\<exists>tr va.
       fst (setup_stage None descending (CIFAR10DataModule ''./'') cifar_on_disk) = Inr ()
     \<and> cifar_train (snd (setup_stage None descending (CIFAR10DataModule ''./'')
                              cifar_on_disk)) = Some tr
     \<and> cifar_val (snd (setup_stage None descending (CIFAR10DataModule ''./'')
                            cifar_on_disk)) = Some va
     \<and> length (sub_indices tr) = 45000
     \<and> length (sub_indices va) = 5000
     \<and> set (sub_indices tr) \<inter> set (sub_indices va) = {}
     \<and> set (sub_indices tr) \<union> set (sub_indices va) = {..<50000}"
proof -
  have d: "disk cifar_on_disk (data_dir (CIFAR10DataModule ''./'' :: nat datamodule))
             = Some cifar_archive"
    by (simp add: cifar_on_disk_def CIFAR10DataModule_def)
  have l: "length (ar_train cifar_archive) = 50000"
    by (simp add: cifar_archive_def)
  have p1: "distinct (descending 50000)"
    by (simp add: descending_def)
  have p2: "set (descending 50000) = {..<50000}"
    by (simp add: descending_def lessThan_atLeast0)
  have s: "(None :: string option) = Some ''fit'' \<or> (None :: string option) = None"
    by simp
  from setup_partitions_train_val
         [where stage = None and randperm = descending, OF s d l p1 p2]
  show ?thesis by blast
qed

section \<open>Batch sizes\<close>

text \<open>
  C3, as the code has it. After \<open>setup\<close> with stage \<open>None\<close> on a train part of 50000
  samples, all three loaders are built with the one constant \<open>BATCH_SIZE\<close> (256 with
  a CUDA device, 64 without). One pass over a loader yields full batches of
  \<open>BATCH_SIZE\<close> samples followed by one shorter batch of what is left: 45000 mod
  \<open>BATCH_SIZE\<close> samples of the train subset (8 without CUDA, 200 with), 5000 mod
  \<open>BATCH_SIZE\<close> of the validation subset (8, or 136), and for the test part the
  remainder of its length when that is not zero. Only the last batch is shorter.
\<close>

theorem dataloader_batch_sizes:
  assumes "disk w (data_dir self) = Some a"
    and "length (ar_train a) = 50000"
    and "distinct (randperm 50000)"
    and "set (randperm 50000) = {..<50000}"
  shows "batch_sizes (train_dataloader cuda (snd (setup_stage None randperm self w))) rng =
           Inr (replicate (45000 div BATCH_SIZE cuda) (BATCH_SIZE cuda)
                @ [45000 mod BATCH_SIZE cuda])
       \<and> batch_sizes (val_dataloader cuda (snd (setup_stage None randperm self w))) rng =
           Inr (replicate (5000 div BATCH_SIZE cuda) (BATCH_SIZE cuda)
                @ [5000 mod BATCH_SIZE cuda])
       \<and> batch_sizes (test_dataloader cuda (snd (setup_stage None randperm self w))) rng =
           Inr (replicate (length (ar_test a) div BATCH_SIZE cuda) (BATCH_SIZE cuda)
                @ (if length (ar_test a) mod BATCH_SIZE cuda = 0 then []
                   else [length (ar_test a) mod BATCH_SIZE cuda]))
       \<and> BATCH_SIZE cuda = (if cuda then 256 else 64)
       \<and> 45000 mod BATCH_SIZE cuda = (if cuda then 200 else 8)
       \<and> 5000 mod BATCH_SIZE cuda = (if cuda then 136 else 8)"
proof -
  let ?dm = "snd (setup_stage None randperm self w)"
  let ?B = "BATCH_SIZE cuda"
  let ?tr = "\<lparr>sub_dataset = loaded self True a,
              sub_indices = take 45000 (randperm 50000)\<rparr>"
  let ?va = "\<lparr>sub_dataset = loaded self True a,
              sub_indices = take 5000 (drop 45000 (randperm 50000))\<rparr>"
  have p: "distinct (randperm 50000)" "set (randperm 50000) = {..<45000 + 5000}"
    using assms(3,4) by simp_all
  note sizes = split_of_permutation(1,2) [OF p]
  note range = split_indices_in_range [OF assms(4)]
  have data: "length (ds_data (loaded self True a)) = 50000"
    using assms(2) by (simp add: loaded_def)
  have pos: "0 < ?B"
    by (rule BATCH_SIZE_pos)
  have dm: "cifar_train ?dm = Some ?tr" "cifar_val ?dm = Some ?va"
    "cifar_test ?dm = Some (loaded self False a)"
    by (simp_all add: setup_none_result [OF assms(1,2)])
  have m1: "45000 mod ?B = (if cuda then 200 else 8)"
    and m2: "5000 mod ?B = (if cuda then 136 else 8)"
    by (simp_all add: BATCH_SIZE_def)
  have "batch_sizes (DataLoader (OfSubset ?tr) ?B) rng =
          Inr (replicate (45000 div ?B) ?B @ [45000 mod ?B])"
    using subset_loader_sizes [of ?tr ?B rng] range(1) [of 45000] data pos sizes(1) m1
    by simp
  then have t: "batch_sizes (train_dataloader cuda ?dm) rng =
          Inr (replicate (45000 div ?B) ?B @ [45000 mod ?B])"
    by (simp add: train_dataloader_def dm)
  have "batch_sizes (DataLoader (OfSubset ?va) ?B) rng =
          Inr (replicate (5000 div ?B) ?B @ [5000 mod ?B])"
    using subset_loader_sizes [of ?va ?B rng] range(2) [of 5000 45000] data pos sizes(2) m2
    by simp
  then have v: "batch_sizes (val_dataloader cuda ?dm) rng =
          Inr (replicate (5000 div ?B) ?B @ [5000 mod ?B])"
    by (simp add: val_dataloader_def dm)
  have s: "batch_sizes (test_dataloader cuda ?dm) rng =
           Inr (replicate (length (ar_test a) div ?B) ?B
                @ (if length (ar_test a) mod ?B = 0 then []
                   else [length (ar_test a) mod ?B]))"
    using dataset_loader_sizes [of ?B "loaded self False a" rng] pos
    by (simp add: test_dataloader_def dm loaded_def)
  have b: "?B = (if cuda then 256 else 64)"
    by (simp add: BATCH_SIZE_def)
  from t v s b m1 m2 show ?thesis
    by (simp only: simp_thms)
qed

theorem dataloader_batch_sizes_witness:
  "batch_sizes (train_dataloader False
      (snd (setup_stage None descending (CIFAR10DataModule ''./'') cifar_on_disk)))
      descending = Inr (replicate 703 64 @ [8])
   \<and> batch_sizes (val_dataloader False
      (snd (setup_stage None descending (CIFAR10DataModule ''./'') cifar_on_disk)))
      descending = Inr (replicate 78 64 @ [8])
   \<and> batch_sizes (test_dataloader False
      (snd (setup_stage None descending (CIFAR10DataModule ''./'') cifar_on_disk)))
      descending = Inr (replicate 156 64 @ [16])"
proof -
  have b: "BATCH_SIZE False = 64"
    by (simp add: BATCH_SIZE_def)
  have n: "(45000::nat) div 64 = 703" "(45000::nat) mod 64 = 8"
    "(5000::nat) div 64 = 78" "(5000::nat) mod 64 = 8"
    "(10000::nat) div 64 = 156" "(10000::nat) mod 64 = 16"
    by simp_all
  from dataloader_batch_sizes
         [where randperm = descending and cuda = False and rng = descending,
          OF example_disk example_train_length descending_perm]
  show ?thesis
    unfolding b example_test_length n by simp
qed

text \<open>
  The claim as stated fails: without CUDA the train loader yields 703 batches of 64
  samples and then one batch of 8.
\<close>

theorem fixed_batch_size_counterexample:
  "batch_sizes (train_dataloader False
      (snd (setup_stage (Some ''fit'') descending (CIFAR10DataModule ''./'') cifar_on_disk)))
      descending = Inr (replicate 703 64 @ [8])
   \<and> BATCH_SIZE False = 64"
proof -
  let ?self = "CIFAR10DataModule ''./'' :: nat datamodule"
  let ?tr = "\<lparr>sub_dataset = loaded ?self True cifar_archive,
              sub_indices = take 45000 (descending 50000)\<rparr>"
  have b: "BATCH_SIZE False = 64"
    by (simp add: BATCH_SIZE_def)
  have n: "(45000::nat) div 64 = 703" "(45000::nat) mod 64 = 8"
    by simp_all
  have len: "length (sub_indices ?tr) = 45000"
    by (simp add: descending_def)
  have "set (sub_indices ?tr) \<subseteq> {..<length (ds_data (sub_dataset ?tr))}"
    using split_indices_in_range(1) [OF descending_perm(2), of 45000 50000]
    by (simp add: loaded_def example_train_length)
  then have "batch_sizes (DataLoader (OfSubset ?tr) 64) descending =
          Inr (replicate (length (sub_indices ?tr) div 64) 64 @
                (if length (sub_indices ?tr) mod 64 = 0 then []
                 else [length (sub_indices ?tr) mod 64]))"
    by (rule subset_loader_sizes) simp
  then have "batch_sizes (DataLoader (OfSubset ?tr) 64) descending =
          Inr (replicate 703 64 @ [8])"
    unfolding len n by simp
  then show ?thesis
    by (simp add: train_dataloader_def b
        setup_fit_result [OF example_disk example_train_length])
qed

section \<open>Order of the samples\<close>

text \<open>
  C10. After \<open>setup\<close> with stage \<open>None\<close> on a train part of 50000 samples, each of
  the three loaders is built without shuffling. One pass over a loader yields, batch
  after batch, the samples of its dataset in index order (for the train and the
  validation subset: the samples at the subset's indices, in the order of its index
  list), and two passes, whatever the library's random state \<open>rng_a\<close> and
  \<open>rng_b\<close> at each, yield the same sequence of batches.
\<close>

theorem dataloaders_keep_index_order:
  assumes "disk w (data_dir self) = Some a"
    and "length (ar_train a) = 50000"
    and "distinct (randperm 50000)"
    and "set (randperm 50000) = {..<50000}"
  shows "\<exists>tr va te tl vl sl tb vb sb.
           cifar_train (snd (setup_stage None randperm self w)) = Some tr
         \<and> cifar_val (snd (setup_stage None randperm self w)) = Some va
         \<and> cifar_test (snd (setup_stage None randperm self w)) = Some te
         \<and> train_dataloader cuda (snd (setup_stage None randperm self w)) = Inr tl
         \<and> val_dataloader cuda (snd (setup_stage None randperm self w)) = Inr vl
         \<and> test_dataloader cuda (snd (setup_stage None randperm self w)) = Inr sl
         \<and> \<not> dl_shuffle tl \<and> \<not> dl_shuffle vl \<and> \<not> dl_shuffle sl
         \<and> dataloader_iter tl rng_a = Inr tb \<and> dataloader_iter tl rng_b = Inr tb
         \<and> dataloader_iter vl rng_a = Inr vb \<and> dataloader_iter vl rng_b = Inr vb
         \<and> dataloader_iter sl rng_a = Inr sb \<and> dataloader_iter sl rng_b = Inr sb
         \<and> concat tb = items_in_order (OfSubset tr)
         \<and> concat vb = items_in_order (OfSubset va)
         \<and> concat sb = items_in_order (OfDataset te)"
proof -
  let ?dm = "snd (setup_stage None randperm self w)"
  let ?B = "BATCH_SIZE cuda"
  let ?tr = "\<lparr>sub_dataset = loaded self True a,
              sub_indices = take 45000 (randperm 50000)\<rparr>"
  let ?va = "\<lparr>sub_dataset = loaded self True a,
              sub_indices = take 5000 (drop 45000 (randperm 50000))\<rparr>"
  let ?te = "loaded self False a"
  note range = split_indices_in_range [OF assms(4)]
  have data: "length (ds_data (loaded self True a)) = 50000"
    using assms(2) by (simp add: loaded_def)
  have pos: "0 < ?B"
    by (rule BATCH_SIZE_pos)
  have dm: "cifar_train ?dm = Some ?tr" "cifar_val ?dm = Some ?va" "cifar_test ?dm = Some ?te"
    by (simp_all add: setup_none_result [OF assms(1,2)])
  obtain tl tb where t: "DataLoader (OfSubset ?tr) ?B = Inr tl" "\<not> dl_shuffle tl"
      "dataloader_iter tl rng_a = Inr tb" "dataloader_iter tl rng_b = Inr tb"
      "concat tb = items_in_order (OfSubset ?tr)"
    using loader_iter_in_order [of ?B "OfSubset ?tr" rng_a rng_b] pos range(1) [of 45000] data
    by auto
  obtain vl vb where v: "DataLoader (OfSubset ?va) ?B = Inr vl" "\<not> dl_shuffle vl"
      "dataloader_iter vl rng_a = Inr vb" "dataloader_iter vl rng_b = Inr vb"
      "concat vb = items_in_order (OfSubset ?va)"
    using loader_iter_in_order [of ?B "OfSubset ?va" rng_a rng_b] pos range(2) [of 5000 45000] data
    by auto
  obtain sl sb where s: "DataLoader (OfDataset ?te) ?B = Inr sl" "\<not> dl_shuffle sl"
      "dataloader_iter sl rng_a = Inr sb" "dataloader_iter sl rng_b = Inr sb"
      "concat sb = items_in_order (OfDataset ?te)"
    using loader_iter_in_order [of ?B "OfDataset ?te" rng_a rng_b] pos
    by auto
  have "train_dataloader cuda ?dm = Inr tl" "val_dataloader cuda ?dm = Inr vl"
    "test_dataloader cuda ?dm = Inr sl"
    using t(1) v(1) s(1)
    by (simp_all add: train_dataloader_def val_dataloader_def test_dataloader_def dm)
  with dm t v s show ?thesis
    by blast
qed

theorem dataloaders_keep_index_order_witness:
  "\<exists>tr tl tb.
       cifar_train (snd (setup_stage None descending (CIFAR10DataModule ''./'') cifar_on_disk))
         = Some tr
     \<and> train_dataloader False
         (snd (setup_stage None descending (CIFAR10DataModule ''./'') cifar_on_disk)) = Inr tl
     \<and> \<not> dl_shuffle tl
     \<and> dataloader_iter tl descending = Inr tb
     \<and> dataloader_iter tl (\<lambda>n. [0..<n]) = Inr tb
     \<and> concat tb = items_in_order (OfSubset tr)"
  using dataloaders_keep_index_order
         [where randperm = descending and cuda = False and rng_a = descending
            and rng_b = "\<lambda>n. [0..<n]",
          OF example_disk example_train_length descending_perm]
  by blast

section \<open>What setup and prepare_data assign\<close>

text \<open>
  C9. \<open>setup\<close> is stage-selective. With stage \<open>fit\<close> the attribute \<open>cifar_test\<close>
  is left as it was, and with stage \<open>test\<close> the attributes \<open>cifar_train\<close> and
  \<open>cifar_val\<close> are left as they were, whether the call returns or raises. With the
  dataset on disk and a train part of 50000 samples the call returns: stage \<open>fit\<close>
  assigns \<open>cifar_train\<close> and \<open>cifar_val\<close> and nothing else, stage \<open>test\<close> assigns
  \<open>cifar_test\<close> and nothing else, and stage \<open>None\<close> assigns all three and nothing
  else.
\<close>

theorem setup_assigns_by_stage:
  "cifar_test (snd (setup_stage (Some ''fit'') randperm self w)) = cifar_test self
   \<and> cifar_train (snd (setup_stage (Some ''test'') randperm self w)) = cifar_train self
   \<and> cifar_val (snd (setup_stage (Some ''test'') randperm self w)) = cifar_val self
   \<and> (disk w (data_dir self) = Some a \<and> length (ar_train a) = 50000 \<longrightarrow>
        (\<exists>tr va. setup_stage (Some ''fit'') randperm self w =
                   (Inr (), self\<lparr>cifar_train := Some tr, cifar_val := Some va\<rparr>))
      \<and> (\<exists>te. setup_stage (Some ''test'') randperm self w =
                   (Inr (), self\<lparr>cifar_test := Some te\<rparr>))
      \<and> (\<exists>tr va te. setup_stage None randperm self w =
                   (Inr (), self\<lparr>cifar_train := Some tr, cifar_val := Some va,
                                  cifar_test := Some te\<rparr>)))"
proof -
  have "\<exists>tr va. setup_stage (Some ''fit'') randperm self w =
                   (Inr (), self\<lparr>cifar_train := Some tr, cifar_val := Some va\<rparr>)"
    and "\<exists>te. setup_stage (Some ''test'') randperm self w =
                   (Inr (), self\<lparr>cifar_test := Some te\<rparr>)"
    and "\<exists>tr va te. setup_stage None randperm self w =
                   (Inr (), self\<lparr>cifar_train := Some tr, cifar_val := Some va,
                                  cifar_test := Some te\<rparr>)"
    if d: "disk w (data_dir self) = Some a" and l: "length (ar_train a) = 50000"
    unfolding setup_fit_result [OF d l] setup_test_result [OF d] setup_none_result [OF d l]
    by blast+
  then show ?thesis
    using setup_frame [of randperm self w] by blast
qed

theorem setup_assigns_by_stage_witness:
  "cifar_test (snd (setup_stage (Some ''fit'') descending (CIFAR10DataModule ''./'')
                      cifar_on_disk)) = None
   \<and> cifar_train (snd (setup_stage (Some ''test'') descending (CIFAR10DataModule ''./'')
                      cifar_on_disk)) = None
   \<and> cifar_val (snd (setup_stage (Some ''test'') descending (CIFAR10DataModule ''./'')
                      cifar_on_disk)) = None
   \<and> (\<exists>tr va. setup_stage (Some ''fit'') descending (CIFAR10DataModule ''./'') cifar_on_disk =
          (Inr (), (CIFAR10DataModule ''./'')\<lparr>cifar_train := Some tr, cifar_val := Some va\<rparr>))
   \<and> (\<exists>te. setup_stage (Some ''test'') descending (CIFAR10DataModule ''./'') cifar_on_disk =
          (Inr (), (CIFAR10DataModule ''./'')\<lparr>cifar_test := Some te\<rparr>))
   \<and> (\<exists>tr va te. setup_stage None descending (CIFAR10DataModule ''./'') cifar_on_disk =
          (Inr (), (CIFAR10DataModule ''./'')\<lparr>cifar_train := Some tr, cifar_val := Some va,
                                                cifar_test := Some te\<rparr>))"
proof -
  have fresh: "cifar_train (CIFAR10DataModule ''./'' :: nat datamodule) = None"
    "cifar_val (CIFAR10DataModule ''./'' :: nat datamodule) = None"
    "cifar_test (CIFAR10DataModule ''./'' :: nat datamodule) = None"
    by (simp_all add: CIFAR10DataModule_def)
  from setup_assigns_by_stage
         [where randperm = descending and self = "CIFAR10DataModule ''./''"
            and w = cifar_on_disk and a = cifar_archive]
       example_disk example_train_length
  show ?thesis
    unfolding fresh by blast
qed

text \<open>
  C8. \<open>prepare_data\<close> leaves every field of the datamodule as it was, for every
  datamodule and every world, whether it returns or raises. It raises only when the
  dataset is neither under \<open>data_dir\<close> nor downloadable; otherwise it leaves the
  archive under \<open>data_dir\<close> (fetching it when it was missing, touching no other
  directory), and then both the train and the test part can be read from there.
\<close>

theorem prepare_data_assigns_nothing:
  "fst (snd (prepare_data self w)) = self
   \<and> fst (prepare_data self w) =
       (if disk w (data_dir self) = None \<and> remote w = None
        then Inl (URLError ''download failed'') else Inr ())
   \<and> snd (snd (prepare_data self w)) =
       (case disk w (data_dir self) of
          Some _ \<Rightarrow> w
        | None \<Rightarrow>
            (case remote w of
               None \<Rightarrow> w
             | Some a \<Rightarrow> w\<lparr>disk := (disk w)(data_dir self \<mapsto> a)\<rparr>))
   \<and> (fst (prepare_data self w) = Inr ()) =
       (\<exists>d. CIFAR10 (data_dir self) True tf False (snd (snd (prepare_data self w))) = Inr d)
   \<and> (fst (prepare_data self w) = Inr ()) =
       (\<exists>d. CIFAR10 (data_dir self) False tf False (snd (snd (prepare_data self w))) = Inr d)"
  by (auto simp: prepare_data_result CIFAR10_def split: option.splits)

lemma prepare_data_example:
  "prepare_data (CIFAR10DataModule ''./'') nothing_on_disk =
     (Inr (), CIFAR10DataModule ''./'',
      nothing_on_disk\<lparr>disk := (\<lambda>_. None)(''./'' \<mapsto> cifar_archive)\<rparr>)"
  by (simp add: prepare_data_result nothing_on_disk_def CIFAR10DataModule_def)

section \<open>Where the data is stored\<close>

text \<open>
  C4. The claim has the datamodule of the script download and load under the path
  that the environment variable \<open>PATH_DATASETS\<close> supplies. The code reads the
  variable into the module constant of that name and then does not use the constant:
  the datamodule is built with no argument and takes the default \<open>./\<close> of its class.
  With \<open>PATH_DATASETS=/data\<close>, nothing on disk and a download that succeeds, the
  constant is \<open>/data\<close>, the datamodule's \<open>data_dir\<close> is \<open>./\<close>, and \<open>prepare_data\<close>
  stores the dataset under \<open>./\<close> and leaves \<open>/data\<close> empty.
\<close>

theorem dataset_path_ignores_environment:
  "g_PATH_DATASETS (script [''PATH_DATASETS'' \<mapsto> ''/data''] False :: nat script_globals)
     = ''/data''
   \<and> data_dir (g_dm (script [''PATH_DATASETS'' \<mapsto> ''/data''] False :: nat script_globals))
     = ''./''
   \<and> fst (prepare_data (g_dm (script [''PATH_DATASETS'' \<mapsto> ''/data''] False))
            nothing_on_disk) = Inr ()
   \<and> disk (snd (snd (prepare_data (g_dm (script [''PATH_DATASETS'' \<mapsto> ''/data''] False))
                      nothing_on_disk))) ''/data'' = None
   \<and> disk (snd (snd (prepare_data (g_dm (script [''PATH_DATASETS'' \<mapsto> ''/data''] False))
                      nothing_on_disk))) ''./'' = Some cifar_archive"
  by (simp add: script_def PATH_DATASETS_def default_data_dir_def prepare_data_result
      nothing_on_disk_def CIFAR10DataModule_def)

text \<open>
  The same happens in every environment: the constant follows the variable, with
  \<open>.\<close> when it is unset, and the datamodule's directory is \<open>./\<close> whatever the
  variable holds; \<open>prepare_data\<close> stores under \<open>./\<close> only, and \<open>setup\<close> reads from
  \<open>./\<close> only.
\<close>

lemma script_data_dir_for_every_environment:
  "g_PATH_DATASETS (script environ cuda) =
     (case environ ''PATH_DATASETS'' of None \<Rightarrow> ''.'' | Some p \<Rightarrow> p)
   \<and> data_dir (g_dm (script environ cuda)) = ''./''
   \<and> snd (snd (prepare_data (g_dm (script environ cuda)) w)) =
       (case disk w ''./'' of
          Some _ \<Rightarrow> w
        | None \<Rightarrow>
            (case remote w of
               None \<Rightarrow> w
             | Some a \<Rightarrow> w\<lparr>disk := (disk w)(''./'' \<mapsto> a)\<rparr>))
   \<and> (disk w ''./'' = disk w2 ''./'' \<longrightarrow>
        setup_stage stage randperm (g_dm (script environ cuda)) w =
        setup_stage stage randperm (g_dm (script environ cuda)) w2)"
proof -
  have dir: "data_dir (CIFAR10DataModule ''./'' :: 'a datamodule) = ''./''"
    by (simp add: CIFAR10DataModule_def)
  have "g_PATH_DATASETS (script environ cuda :: 'a script_globals) =
     (case environ ''PATH_DATASETS'' of None \<Rightarrow> ''.'' | Some p \<Rightarrow> p)"
    by (simp add: script_def PATH_DATASETS_def)
  moreover have "snd (snd (prepare_data (CIFAR10DataModule ''./'') w)) =
       (case disk w ''./'' of
          Some _ \<Rightarrow> w
        | None \<Rightarrow>
            (case remote w of
               None \<Rightarrow> w
             | Some a \<Rightarrow> w\<lparr>disk := (disk w)(''./'' \<mapsto> a)\<rparr>))"
    by (simp add: prepare_data_result CIFAR10DataModule_def split: option.splits)
  moreover have "setup_stage stage randperm (CIFAR10DataModule ''./'') w =
        setup_stage stage randperm (CIFAR10DataModule ''./'') w2"
    if "disk w ''./'' = disk w2 ''./''"
    using that by (intro setup_depends_on_data_dir) (simp add: CIFAR10DataModule_def)
  ultimately show ?thesis
    by (simp add: script_dm CIFAR10DataModule_def)
qed

section \<open>The datamodules of the program\<close>




section \<open>The steps of the model adapter\<close>




text \<open>
  C6. \<open>configure_optimizers\<close> returns one optimizer: \<open>Adam\<close>, over all parameters
  of the model, built with no keyword argument, so with no learning rate of its own.
\<close>

theorem configure_optimizers_adam:
  "configure_optimizers self =
     \<lparr>opt_class = ''Adam'', opt_params = parameters self, opt_kwargs = []\<rparr>
   \<and> map_of (opt_kwargs (configure_optimizers self)) ''lr'' = None"
  by (simp add: configure_optimizers_def Adam_def)



end
